theory Spec2Isabelle
  imports Main "HOL-Library.Multiset" "HOL-Library.Product_Lexorder"
begin

section \<open>The ledger of app.py: data model\<close>

text \<open>
  The class \<open>ComptabiliteBTP\<close> keeps its state in an SQLite file with two tables,
  \<open>comptes\<close> and \<open>transactions\<close>. The model is the content of that file: the rows
  of each table in rowid order (the order in which a table scan visits them) and the
  \<open>AUTOINCREMENT\<close> counter that SQLite keeps in \<open>sqlite_sequence\<close>.

  Strings are lists of code points below 256, so the accented letters of the seed
  names are single characters. The column \<open>montant\<close> is \<open>REAL\<close>; amounts are
  modelled as whole numbers (\<open>int\<close>), on which the additions and subtractions of the
  program are exact. The column \<open>date_saisie\<close>, filled by the engine's clock and read
  by no query of the program, is not part of the model.
\<close>

text \<open>A Python \<open>datetime.date\<close>; the sqlite3 adapter stores it as \<open>YYYY-MM-DD\<close>,
  a text whose order is the order of the triple (year, month, day).\<close>

record date =
  year :: nat
  month :: nat
  day :: nat

definition date_key :: "date \<Rightarrow> nat \<times> nat \<times> nat" where
  "date_key d = (year d, month d, day d)"

record compte =
  code_compte :: string
  nom_compte :: string
  type_compte :: string
  solde_actuel :: int

record transaction =
  idt :: int
  date_transaction :: date
  compte_debit :: string
  compte_credit :: string
  montant :: int
  description :: string
  type_transaction :: string
  reference_bdc :: "string option"
  responsable :: "string option"
  statut :: string

record database =
  comptes :: "compte list"
  transactions :: "transaction list"
  sqlite_sequence :: int

text \<open>The file before the first connection: no row in either table.\<close>

definition empty_database :: database where
  "empty_database = \<lparr>comptes = [], transactions = [], sqlite_sequence = 0\<rparr>"

subsection \<open>\<open>init_database\<close>\<close>

definition comptes_principaux :: "(string \<times> string \<times> string) list" where
  "comptes_principaux =
     [(''INVEST'', ''Investissement'', ''ACTIF''),
      (''SYS_BDC'', ''Syst'' @ [CHR 0xE8] @ ''me BDC'', ''ACTIF''),
      (''DEP_OP'', ''D'' @ [CHR 0xE9] @ ''penses Op'' @ [CHR 0xE9] @ ''rationnelles'', ''CHARGE''),
      (''CHARGE_FIX'', ''Charges Fixes'', ''CHARGE''),
      (''RECETTES'', ''Recettes'', ''PRODUIT'')]"

text \<open>\<open>INSERT INTO comptes (code_compte, nom_compte, type_compte)\<close>: the balance takes
  the column's default, 0.\<close>

definition insert_compte :: "string \<times> string \<times> string \<Rightarrow> compte" where
  "insert_compte r = (case r of (c, n, t) \<Rightarrow>
     \<lparr>code_compte = c, nom_compte = n, type_compte = t, solde_actuel = 0\<rparr>)"

text \<open>Both \<open>CREATE TABLE IF NOT EXISTS\<close> leave existing tables alone; the seed rows
  are inserted only when \<open>SELECT COUNT(*) FROM comptes\<close> is 0.\<close>

definition init_database :: "database \<Rightarrow> database" where
  "init_database db =
     (if length (comptes db) = 0
      then db\<lparr>comptes := comptes db @ map insert_compte comptes_principaux\<rparr>
      else db)"

subsection \<open>SQL statements and faults\<close>

text \<open>
  What the two writers return as their message: the three fixed texts and
  \<open>Erreur: str(e)\<close> for a caught exception.
\<close>

datatype message = Ajoutee | Supprimee | Non_trouvee | Erreur string

text \<open>
  A statement of the engine may raise (a locked or full file, an I/O fault). The extra
  argument \<open>fault\<close> of the writers says which statement of the call raises, counted
  from 0, and with which text; \<open>None\<close> is a call without fault.
\<close>

type_synonym fault = "(nat \<times> string) option"

definition execute :: "fault \<Rightarrow> nat \<Rightarrow> (database \<Rightarrow> 'a) \<Rightarrow> database \<Rightarrow> string + 'a" where
  "execute fault k stmt db =
     (case fault of
        None \<Rightarrow> Inr (stmt db)
      | Some (j, e) \<Rightarrow> if j = k then Inl e else Inr (stmt db))"

text \<open>\<open>AUTOINCREMENT\<close>: the new rowid is one more than the largest rowid ever used.\<close>

definition next_id :: "database \<Rightarrow> int" where
  "next_id db = fold max (map idt (transactions db)) (sqlite_sequence db) + 1"

text \<open>The row that the \<open>INSERT\<close> of \<open>ajouter_transaction\<close> writes; \<open>statut\<close> takes
  the column's default.\<close>

definition new_row ::
  "date \<Rightarrow> string \<Rightarrow> string \<Rightarrow> int \<Rightarrow> string \<Rightarrow> string \<Rightarrow> string option \<Rightarrow> string option
   \<Rightarrow> database \<Rightarrow> transaction" where
  "new_row date_trans debit credit m descr type_trans ref_bdc resp db =
     \<lparr>idt = next_id db, date_transaction = date_trans, compte_debit = debit,
      compte_credit = credit, montant = m, description = descr,
      type_transaction = type_trans, reference_bdc = ref_bdc, responsable = resp,
      statut = ''Valid'' @ [CHR 0xE9]\<rparr>"

definition insert_transaction ::
  "date \<Rightarrow> string \<Rightarrow> string \<Rightarrow> int \<Rightarrow> string \<Rightarrow> string \<Rightarrow> string option \<Rightarrow> string option
   \<Rightarrow> database \<Rightarrow> database" where
  "insert_transaction date_trans debit credit m descr type_trans ref_bdc resp db =
     db\<lparr>transactions := transactions db @
           [new_row date_trans debit credit m descr type_trans ref_bdc resp db],
        sqlite_sequence := next_id db\<rparr>"

text \<open>\<open>UPDATE comptes SET solde_actuel = solde_actuel + ? WHERE code_compte = ?\<close>:
  every row with that code is updated; with no such row the statement changes nothing
  and raises nothing.\<close>

definition add_solde :: "int \<Rightarrow> string \<Rightarrow> compte \<Rightarrow> compte" where
  "add_solde delta code c =
     (if code_compte c = code then c\<lparr>solde_actuel := solde_actuel c + delta\<rparr> else c)"

definition update_solde :: "int \<Rightarrow> string \<Rightarrow> database \<Rightarrow> database" where
  "update_solde delta code db = db\<lparr>comptes := map (add_solde delta code) (comptes db)\<rparr>"

text \<open>\<open>SELECT compte_debit, compte_credit, montant FROM transactions WHERE id = ?\<close>
  followed by \<open>fetchone()\<close>.\<close>

definition select_transaction :: "int \<Rightarrow> database \<Rightarrow> (string \<times> string \<times> int) option" where
  "select_transaction transaction_id db =
     map_option (\<lambda>t. (compte_debit t, compte_credit t, montant t))
       (find (\<lambda>t. idt t = transaction_id) (transactions db))"

definition delete_transaction :: "int \<Rightarrow> database \<Rightarrow> database" where
  "delete_transaction transaction_id db =
     db\<lparr>transactions := filter (\<lambda>t. idt t \<noteq> transaction_id) (transactions db)\<rparr>"

subsection \<open>\<open>ajouter_transaction\<close> and \<open>supprimer_transaction\<close>\<close>

text \<open>
  The statements run inside one transaction of the engine. \<open>conn.commit()\<close> makes their
  effect the new content of the file; an exception anywhere in the \<open>try\<close> block goes
  to \<open>conn.rollback()\<close>, after which the file holds what it held before the call.
\<close>

definition ajouter_transaction ::
  "fault \<Rightarrow> database \<Rightarrow> date \<Rightarrow> string \<Rightarrow> string \<Rightarrow> int \<Rightarrow> string \<Rightarrow> string
   \<Rightarrow> string option \<Rightarrow> string option \<Rightarrow> database \<times> bool \<times> message" where
  "ajouter_transaction fault db date_trans debit credit m descr type_trans ref_bdc resp =
     (case execute fault 0
             (insert_transaction date_trans debit credit m descr type_trans ref_bdc resp) db of
        Inl e \<Rightarrow> (db, False, Erreur e)
      | Inr db1 \<Rightarrow>
     (case execute fault 1 (update_solde m debit) db1 of
        Inl e \<Rightarrow> (db, False, Erreur e)
      | Inr db2 \<Rightarrow>
     (case execute fault 2 (update_solde (- m) credit) db2 of
        Inl e \<Rightarrow> (db, False, Erreur e)
      | Inr db3 \<Rightarrow>
     (case execute fault 3 (\<lambda>d. d) db3 of
        Inl e \<Rightarrow> (db, False, Erreur e)
      | Inr db4 \<Rightarrow> (db4, True, Ajoutee)))))"

definition supprimer_transaction ::
  "fault \<Rightarrow> database \<Rightarrow> int \<Rightarrow> database \<times> bool \<times> message" where
  "supprimer_transaction fault db transaction_id =
     (case execute fault 0 (select_transaction transaction_id) db of
        Inl e \<Rightarrow> (db, False, Erreur e)
      | Inr None \<Rightarrow> (db, False, Non_trouvee)
      | Inr (Some (debit, credit, m)) \<Rightarrow>
     (case execute fault 1 (update_solde (- m) debit) db of
        Inl e \<Rightarrow> (db, False, Erreur e)
      | Inr db1 \<Rightarrow>
     (case execute fault 2 (update_solde m credit) db1 of
        Inl e \<Rightarrow> (db, False, Erreur e)
      | Inr db2 \<Rightarrow>
     (case execute fault 3 (delete_transaction transaction_id) db2 of
        Inl e \<Rightarrow> (db, False, Erreur e)
      | Inr db3 \<Rightarrow>
     (case execute fault 4 (\<lambda>d. d) db3 of
        Inl e \<Rightarrow> (db, False, Erreur e)
      | Inr db4 \<Rightarrow> (db4, True, Supprimee))))))"

subsection \<open>\<open>get_transactions\<close>\<close>

text \<open>
  \<open>ORDER BY date_transaction DESC\<close> is the only ordering the query asks for. Rows with
  the same date come out in the order of the table scan, that is by ascending rowid:
  the sort is modelled as a stable insertion sort of the scanned rows.
\<close>

fun insert_desc :: "transaction \<Rightarrow> transaction list \<Rightarrow> transaction list" where
  "insert_desc x [] = [x]"
| "insert_desc x (y # ys) =
     (if date_key (date_transaction y) \<le> date_key (date_transaction x)
      then x # y # ys else y # insert_desc x ys)"

definition order_by_date_desc :: "transaction list \<Rightarrow> transaction list" where
  "order_by_date_desc xs = foldr insert_desc xs []"

text \<open>
  \<open>if limit:\<close> appends \<open>LIMIT\<close> only for a limit that is neither \<open>None\<close> nor 0; SQLite
  reads a negative \<open>LIMIT\<close> as no bound. A query that raises gives the empty frame.
\<close>

definition get_transactions :: "fault \<Rightarrow> database \<Rightarrow> int option \<Rightarrow> transaction list" where
  "get_transactions fault db limit =
     (case execute fault 0
             (\<lambda>d. let rows = order_by_date_desc (transactions d)
                  in (case limit of
                        None \<Rightarrow> rows
                      | Some n \<Rightarrow> if n = 0 then rows
                                  else if n < 0 then rows else take (nat n) rows)) db of
        Inl e \<Rightarrow> []
      | Inr df \<Rightarrow> df)"

subsection \<open>\<open>get_synthese_mensuelle\<close>\<close>

text \<open>Decimal digits, as \<open>str\<close> and the \<open>d\<close> format of Python and SQLite print them.\<close>

fun str_nat :: "nat \<Rightarrow> string" where
  "str_nat n =
     (if n < 10 then [''0123456789'' ! n]
      else str_nat (n div 10) @ [''0123456789'' ! (n mod 10)])"

declare str_nat.simps [simp del]

definition zfill :: "nat \<Rightarrow> string \<Rightarrow> string" where
  "zfill w s = replicate (w - length s) (CHR ''0'') @ s"

text \<open>\<open>str(annee)\<close> for a Python int.\<close>

definition str_int :: "int \<Rightarrow> string" where
  "str_int i = (if i < 0 then CHR ''-'' # str_nat (nat (- i)) else str_nat (nat i))"

text \<open>The f-string \<open>{mois:02d}\<close>: zero-filled to width 2, the sign counted in the width.\<close>

definition format_02d :: "int \<Rightarrow> string" where
  "format_02d i =
     (if i < 0 then CHR ''-'' # zfill 1 (str_nat (nat (- i))) else zfill 2 (str_nat (nat i)))"

text \<open>SQLite's \<open>strftime('%Y', d)\<close> prints the year on four digits and
  \<open>strftime('%m', d)\<close> the month on two.\<close>

definition strftime_Y :: "date \<Rightarrow> string" where
  "strftime_Y d = zfill 4 (str_nat (year d))"

definition strftime_m :: "date \<Rightarrow> string" where
  "strftime_m d = zfill 2 (str_nat (month d))"

text \<open>
  \<open>now\<close> is what \<open>datetime.now()\<close> reads; \<open>if not annee\<close> holds for \<open>None\<close> and for 0.
  The result frame has one row (type_transaction, total) for each group; the order of
  the groups is the engine's (here: of their last row in the scan).
\<close>

definition get_synthese_mensuelle ::
  "fault \<Rightarrow> date \<Rightarrow> database \<Rightarrow> int option \<Rightarrow> int option \<Rightarrow> (string \<times> int) list" where
  "get_synthese_mensuelle fault now db annee mois =
     (let a = (case annee of None \<Rightarrow> int (year now)
                | Some y \<Rightarrow> if y = 0 then int (year now) else y);
          m = (case mois of None \<Rightarrow> int (month now)
                | Some k \<Rightarrow> if k = 0 then int (month now) else k)
      in case execute fault 0
                (\<lambda>d. let rows = filter (\<lambda>t. strftime_Y (date_transaction t) = str_int a
                                           \<and> strftime_m (date_transaction t) = format_02d m)
                                      (transactions d)
                     in map (\<lambda>g. (g, sum_list (map montant
                                       (filter (\<lambda>t. type_transaction t = g) rows))))
                            (remdups (map type_transaction rows))) db of
           Inl e \<Rightarrow> []
         | Inr df \<Rightarrow> df)"

subsection \<open>The form of \<open>main\<close> that records a transaction\<close>





subsection \<open>Reachable states and what is observed of them\<close>

text \<open>A history is a list of calls to the two writers, run from the file that
  \<open>init_database\<close> makes of the empty one.\<close>

datatype operation =
    Record fault date string string int string string "string option" "string option"
  | Reverse fault int

fun apply_operation :: "database \<Rightarrow> operation \<Rightarrow> database" where
  "apply_operation db (Record f d debit credit m descr ty ref_bdc resp) =
     fst (ajouter_transaction f db d debit credit m descr ty ref_bdc resp)"
| "apply_operation db (Reverse f i) = fst (supprimer_transaction f db i)"

definition run :: "operation list \<Rightarrow> database" where
  "run ops = foldl apply_operation (init_database empty_database) ops"






text \<open>A listing ordered by date descending, equal dates by id descending.\<close>

definition by_date_then_id_desc :: "transaction list \<Rightarrow> bool" where
  "by_date_then_id_desc xs =
     sorted_wrt (\<lambda>a b. date_key (date_transaction b) < date_key (date_transaction a)
                     \<or> (date_key (date_transaction b) = date_key (date_transaction a)
                         \<and> idt b < idt a)) xs"

text \<open>A listing ordered by date descending, which is all that the query asks for.\<close>

definition by_date_desc :: "transaction list \<Rightarrow> bool" where
  "by_date_desc xs =
     sorted_wrt (\<lambda>a b. date_key (date_transaction b) \<le> date_key (date_transaction a)) xs"


text \<open>The number that a string of decimal digits denotes; it reads back what
  \<open>str_nat\<close> and \<open>zfill\<close> print.\<close>

definition digit_value :: "char \<Rightarrow> nat" where
  "digit_value c = of_char c - 48"

definition decimal_value :: "string \<Rightarrow> nat" where
  "decimal_value s = foldl (\<lambda>a c. 10 * a + digit_value c) 0 s"

text \<open>
  The summary in the words of the specification: over the stored transactions dated
  in the calendar month \<open>k\<close> of year \<open>y\<close>, a category that has a transaction is mapped
  to the sum of the amounts of its transactions, and any other category is absent.
\<close>

definition summarize_by_category_spec :: "database \<Rightarrow> int \<Rightarrow> int \<Rightarrow> string \<Rightarrow> int option" where
  "summarize_by_category_spec db y k g =
     (let rows = filter (\<lambda>t. int (year (date_transaction t)) = y
                            \<and> int (month (date_transaction t)) = k) (transactions db)
      in if g \<in> set (map type_transaction rows)
         then Some (sum_list (map montant (filter (\<lambda>t. type_transaction t = g) rows)))
         else None)"

section \<open>Facts about the statements\<close>





lemma new_row_fields:
  "idt (new_row d debit credit m descr ty rf rs db) = next_id db"
  "compte_debit (new_row d debit credit m descr ty rf rs db) = debit"
  "compte_credit (new_row d debit credit m descr ty rf rs db) = credit"
  "montant (new_row d debit credit m descr ty rf rs db) = m"
  "date_transaction (new_row d debit credit m descr ty rf rs db) = d"
  "type_transaction (new_row d debit credit m descr ty rf rs db) = ty"
  by (simp_all add: new_row_def)

lemma insert_transaction_fields:
  "comptes (insert_transaction d debit credit m descr ty rf rs db) = comptes db"
  "transactions (insert_transaction d debit credit m descr ty rf rs db) =
     transactions db @ [new_row d debit credit m descr ty rf rs db]"
  by (simp_all add: insert_transaction_def)

lemma update_solde_fields:
  "comptes (update_solde a x db) = map (add_solde a x) (comptes db)"
  "transactions (update_solde a x db) = transactions db"
  "sqlite_sequence (update_solde a x db) = sqlite_sequence db"
  by (simp_all add: update_solde_def)






text \<open>The two outcomes of each writer: every statement ran and the commit went through,
  or the file is the one before the call.\<close>

lemma ajouter_success:
  "ajouter_transaction None db d debit credit m descr ty rf rs =
     (update_solde (- m) credit (update_solde m debit
        (insert_transaction d debit credit m descr ty rf rs db)), True, Ajoutee)"
  by (simp add: ajouter_transaction_def execute_def)




lemma find_None_ids: "i \<notin> set (map idt ts) \<Longrightarrow> find (\<lambda>t. idt t = i) ts = None"
  by (induction ts) auto



subsection \<open>The listing\<close>

lemma mset_insert_desc: "mset (insert_desc x ys) = add_mset x (mset ys)"
  by (induction ys) auto

lemma mset_order_by_date_desc: "mset (order_by_date_desc xs) = mset xs"
  by (induction xs) (simp_all add: order_by_date_desc_def mset_insert_desc)


lemma set_insert_desc: "set (insert_desc x ys) = insert x (set ys)"
  by (induction ys) auto

lemma by_date_desc_insert: "by_date_desc ys \<Longrightarrow> by_date_desc (insert_desc x ys)"
  unfolding by_date_desc_def by (induction ys) (auto simp: set_insert_desc)

lemma by_date_desc_order: "by_date_desc (order_by_date_desc xs)"
proof (induction xs)
  case Nil
  show ?case by (simp add: order_by_date_desc_def by_date_desc_def)
next
  case (Cons x xs)
  then have "by_date_desc (insert_desc x (order_by_date_desc xs))"
    by (rule by_date_desc_insert)
  then show ?case by (simp add: order_by_date_desc_def)
qed

lemma by_date_desc_take: "by_date_desc xs \<Longrightarrow> by_date_desc (take n xs)"
  unfolding by_date_desc_def by (rule sorted_wrt_take)

lemma get_transactions_no_fault:
  "get_transactions None db limit =
     (case limit of None \<Rightarrow> order_by_date_desc (transactions db)
      | Some n \<Rightarrow> if n \<le> 0 then order_by_date_desc (transactions db)
                  else take (nat n) (order_by_date_desc (transactions db)))"
  by (simp add: get_transactions_def execute_def Let_def split: option.splits)

lemma get_transactions_shape:
  "get_transactions fault db limit = []
   \<or> get_transactions fault db limit = order_by_date_desc (transactions db)
   \<or> (\<exists>n. get_transactions fault db limit = take n (order_by_date_desc (transactions db)))"
proof (cases fault)
  case None
  then show ?thesis
    by (cases limit) (auto simp: get_transactions_no_fault)
next
  case (Some f)
  then show ?thesis
    by (cases f; cases limit) (auto simp: get_transactions_def execute_def Let_def)
qed


subsection \<open>\<open>strip\<close>\<close>



section \<open>Initialisation\<close>

text \<open>
  Claim C9. \<open>init_database\<close> is idempotent. On a registry without accounts it creates
  exactly the five seed accounts INVEST, SYS_BDC, DEP_OP, CHARGE_FIX and RECETTES, each
  with balance 0, and touches nothing else; on a registry that has accounts it changes
  nothing at all.
\<close>

theorem init_database_idempotent:
  "init_database (init_database db) = init_database db
   \<and> (comptes db = [] \<longrightarrow>
        map (\<lambda>c. (code_compte c, type_compte c, solde_actuel c)) (comptes (init_database db)) =
          [(''INVEST'', ''ACTIF'', 0), (''SYS_BDC'', ''ACTIF'', 0), (''DEP_OP'', ''CHARGE'', 0),
           (''CHARGE_FIX'', ''CHARGE'', 0), (''RECETTES'', ''PRODUIT'', 0)]
        \<and> transactions (init_database db) = transactions db
        \<and> sqlite_sequence (init_database db) = sqlite_sequence db)
   \<and> (comptes db \<noteq> [] \<longrightarrow> init_database db = db)"
  by (simp add: init_database_def comptes_principaux_def insert_compte_def)

theorem init_database_idempotent_witness:
  "comptes empty_database = []
   \<and> map (\<lambda>c. (code_compte c, type_compte c, solde_actuel c))
        (comptes (init_database empty_database)) =
          [(''INVEST'', ''ACTIF'', 0), (''SYS_BDC'', ''ACTIF'', 0), (''DEP_OP'', ''CHARGE'', 0),
           (''CHARGE_FIX'', ''CHARGE'', 0), (''RECETTES'', ''PRODUIT'', 0)]
   \<and> comptes (init_database empty_database) \<noteq> []
   \<and> init_database (init_database empty_database) = init_database empty_database"
proof -
  have e: "comptes empty_database = []" by (simp add: empty_database_def)
  with init_database_idempotent [of empty_database]
  have m: "map (\<lambda>c. (code_compte c, type_compte c, solde_actuel c))
        (comptes (init_database empty_database)) =
          [(''INVEST'', ''ACTIF'', 0), (''SYS_BDC'', ''ACTIF'', 0), (''DEP_OP'', ''CHARGE'', 0),
           (''CHARGE_FIX'', ''CHARGE'', 0), (''RECETTES'', ''PRODUIT'', 0)]" by blast
  then have ne: "comptes (init_database empty_database) \<noteq> []" by auto
  with init_database_idempotent [of "init_database empty_database"] e m show ?thesis by blast
qed

section \<open>Reversing an unknown id\<close>

text \<open>
  Claim C6. For an id that no stored transaction has, \<open>supprimer_transaction\<close> answers
  "transaction not found" and fails; whatever faults occur, the store and the balances
  are those before the call.
\<close>

theorem supprimer_unknown_id_unchanged:
  "transaction_id \<notin> set (map idt (transactions db)) \<Longrightarrow>
     supprimer_transaction None db transaction_id = (db, False, Non_trouvee)
     \<and> fst (supprimer_transaction fault db transaction_id) = db
     \<and> \<not> fst (snd (supprimer_transaction fault db transaction_id))"
  by (auto simp: supprimer_transaction_def execute_def select_transaction_def find_None_ids
      split: option.splits sum.splits if_splits)

theorem supprimer_unknown_id_unchanged_witness:
  "7 \<notin> set (map idt (transactions (init_database empty_database)))
   \<and> supprimer_transaction None (init_database empty_database) 7 =
       (init_database empty_database, False, Non_trouvee)"
proof -
  have h: "7 \<notin> set (map idt (transactions (init_database empty_database)))"
    by (simp add: init_database_def empty_database_def)
  from supprimer_unknown_id_unchanged [OF h] h show ?thesis by blast
qed

section \<open>The listing\<close>

text \<open>
  Claim C10. A limit of 0 is no limit: \<open>get_transactions\<close> called with 0 returns what it
  returns without a limit, which is every stored transaction.
\<close>

theorem get_transactions_limit_zero_is_all:
  "get_transactions fault db (Some 0) = get_transactions fault db None
   \<and> mset (get_transactions None db (Some 0)) = mset (transactions db)"
  by (simp add: get_transactions_def execute_def mset_order_by_date_desc split: option.splits)

text \<open>
  Claim C7, as stated: the listing is ordered by date descending with ties broken by id
  descending. The query orders by the date alone; two transactions recorded on the same
  day are listed in the order of their ids, the older first.
\<close>

theorem get_transactions_ties_not_by_id:
  "\<not> by_date_then_id_desc (get_transactions None
       (run [Record None \<lparr>year = 2024, month = 1, day = 10\<rparr> ''INVEST'' ''RECETTES'' 1000
               ''x'' ''Investissement'' None None,
             Record None \<lparr>year = 2024, month = 1, day = 10\<rparr> ''SYS_BDC'' ''RECETTES'' 500
               ''y'' ''BDC'' None None]) None)"
  by (simp add: by_date_then_id_desc_def get_transactions_def execute_def run_def
      init_database_def empty_database_def comptes_principaux_def insert_compte_def
      ajouter_transaction_def insert_transaction_def new_row_def update_solde_def
      next_id_def order_by_date_desc_def date_key_def)

text \<open>
  Claim C7, amended. The listing is ordered by date descending (nothing is promised
  about transactions of the same date). Without a limit it holds every stored
  transaction once; with a positive limit \<open>n\<close> it is the first \<open>n\<close> rows of that listing;
  a limit that is not positive is no limit.
\<close>

theorem get_transactions_by_date_desc:
  "by_date_desc (get_transactions fault db limit)
   \<and> mset (get_transactions None db None) = mset (transactions db)
   \<and> (0 < n \<longrightarrow> get_transactions None db (Some n) = take (nat n) (get_transactions None db None)
               \<and> length (get_transactions None db (Some n)) = min (nat n) (length (transactions db)))
   \<and> (n \<le> 0 \<longrightarrow> get_transactions None db (Some n) = get_transactions None db None)"
proof -
  have len: "length (order_by_date_desc (transactions db)) = length (transactions db)"
    using mset_order_by_date_desc [of "transactions db"] by (rule mset_eq_length)
  have "by_date_desc (get_transactions fault db limit)"
    using get_transactions_shape [of fault db limit]
  proof (elim disjE exE)
    assume "get_transactions fault db limit = []"
    then show ?thesis by (simp add: by_date_desc_def)
  next
    assume "get_transactions fault db limit = order_by_date_desc (transactions db)"
    then show ?thesis by (simp add: by_date_desc_order)
  next
    fix k assume "get_transactions fault db limit = take k (order_by_date_desc (transactions db))"
    then show ?thesis by (simp add: by_date_desc_order by_date_desc_take)
  qed
  moreover have "mset (get_transactions None db None) = mset (transactions db)"
    by (simp add: get_transactions_no_fault mset_order_by_date_desc)
  moreover have "0 < n \<longrightarrow>
      get_transactions None db (Some n) = take (nat n) (get_transactions None db None)
      \<and> length (get_transactions None db (Some n)) = min (nat n) (length (transactions db))"
    by (simp add: get_transactions_no_fault len min.commute)
  moreover have "n \<le> 0 \<longrightarrow> get_transactions None db (Some n) = get_transactions None db None"
    by (simp add: get_transactions_no_fault)
  ultimately show ?thesis by blast
qed

theorem get_transactions_by_date_desc_witness:
  "(0::int) < 1
   \<and> length (get_transactions None
       (run [Record None \<lparr>year = 2024, month = 1, day = 10\<rparr> ''INVEST'' ''RECETTES'' 1000
               ''x'' ''Investissement'' None None,
             Record None \<lparr>year = 2024, month = 2, day = 3\<rparr> ''SYS_BDC'' ''RECETTES'' 500
               ''y'' ''BDC'' None None]) (Some 1)) = 1
   \<and> \<not> (2::int) \<le> 0
   \<and> (- 1::int) \<le> 0
   \<and> get_transactions None (init_database empty_database) (Some (- 1)) =
       get_transactions None (init_database empty_database) None"
proof -
  let ?db = "run [Record None \<lparr>year = 2024, month = 1, day = 10\<rparr> ''INVEST'' ''RECETTES'' 1000
               ''x'' ''Investissement'' None None,
             Record None \<lparr>year = 2024, month = 2, day = 3\<rparr> ''SYS_BDC'' ''RECETTES'' 500
               ''y'' ''BDC'' None None]"
  have l: "length (transactions ?db) = 2"
    by (simp add: run_def ajouter_success insert_transaction_fields update_solde_fields
        init_database_def empty_database_def)
  have p: "(0::int) < 1" and q: "(- 1::int) \<le> 0" by simp_all
  from get_transactions_by_date_desc [of None ?db None 1] p
  have "length (get_transactions None ?db (Some 1)) = min (nat 1) (length (transactions ?db))"
    by blast
  with l have "length (get_transactions None ?db (Some 1)) = 1" by simp
  moreover from get_transactions_by_date_desc [of None "init_database empty_database" None "- 1"] q
  have "get_transactions None (init_database empty_database) (Some (- 1)) =
       get_transactions None (init_database empty_database) None" by blast
  ultimately show ?thesis by simp
qed

section \<open>The checks of the form\<close>




section \<open>Atomicity of the two writers\<close>



section \<open>Recording, then reversing\<close>



section \<open>Balances and the stored transactions\<close>















section \<open>The sum of the balances\<close>
















section \<open>The monthly summary\<close>

subsection \<open>Decimal strings\<close>

lemma digit_value_nth: "d < 10 \<Longrightarrow> digit_value (''0123456789'' ! d) = d"
proof -
  assume "d < 10"
  then have "d = 0 \<or> d = 1 \<or> d = 2 \<or> d = 3 \<or> d = 4 \<or> d = 5 \<or> d = 6 \<or> d = 7 \<or> d = 8 \<or> d = 9"
    by arith
  then show ?thesis
    by (elim disjE) (simp_all add: digit_value_def)
qed

lemma decimal_value_snoc:
  "decimal_value (s @ [c]) = 10 * decimal_value s + digit_value c"
  by (simp add: decimal_value_def)

lemma decimal_value_str_nat: "decimal_value (str_nat n) = n"
proof (induction n rule: str_nat.induct)
  case (1 n)
  show ?case
  proof (cases "n < 10")
    case True
    then have "str_nat n = [''0123456789'' ! n]" by (subst str_nat.simps) simp
    then have "decimal_value (str_nat n) = digit_value (''0123456789'' ! n)"
      by (simp add: decimal_value_def)
    with True show ?thesis by (simp only: digit_value_nth)
  next
    case False
    then have s: "str_nat n = str_nat (n div 10) @ [''0123456789'' ! (n mod 10)]"
      by (subst str_nat.simps) simp
    from False have ih: "decimal_value (str_nat (n div 10)) = n div 10" by (rule "1.IH")
    have "n mod 10 < 10" by simp
    then have d: "digit_value (''0123456789'' ! (n mod 10)) = n mod 10" by (rule digit_value_nth)
    show ?thesis unfolding s decimal_value_snoc ih d by simp
  qed
qed

lemma decimal_value_zeros:
  "foldl (\<lambda>a c. 10 * a + digit_value c) 0 (replicate j (CHR ''0'') @ s) =
   foldl (\<lambda>a c. 10 * a + digit_value c) 0 s"
  by (induction j) (simp_all add: digit_value_def)

lemma decimal_value_zfill: "decimal_value (zfill w s) = decimal_value s"
  unfolding zfill_def decimal_value_def by (rule decimal_value_zeros)

lemma length_str_nat_step: "10 \<le> n \<Longrightarrow> length (str_nat n) = length (str_nat (n div 10)) + 1"
  by (subst str_nat.simps) simp

lemma length_str_nat_pos: "1 \<le> length (str_nat n)"
  by (subst str_nat.simps) simp

lemma length_str_nat_1000: "1000 \<le> n \<Longrightarrow> 4 \<le> length (str_nat n)"
proof -
  assume n: "1000 \<le> n"
  then have a: "10 \<le> n" and b: "10 \<le> n div 10" and c: "10 \<le> n div 10 div 10" by arith+
  from length_str_nat_step [OF a] length_str_nat_step [OF b] length_str_nat_step [OF c]
    length_str_nat_pos [of "n div 10 div 10 div 10"]
  show ?thesis by arith
qed

lemma zfill_4_str_nat: "1000 \<le> n \<Longrightarrow> zfill 4 (str_nat n) = str_nat n"
  using length_str_nat_1000 [of n] by (simp add: zfill_def)

subsection \<open>The rows of the month\<close>

lemma year_matches:
  assumes "1000 \<le> y"
  shows "strftime_Y d = str_int y \<longleftrightarrow> int (year d) = y"
proof
  assume "strftime_Y d = str_int y"
  then have "decimal_value (strftime_Y d) = decimal_value (str_int y)" by simp
  with assms have "year d = nat y"
    by (simp add: strftime_Y_def str_int_def decimal_value_zfill decimal_value_str_nat)
  with assms show "int (year d) = y" by simp
next
  assume e: "int (year d) = y"
  with assms have "1000 \<le> year d" by simp
  then have "zfill 4 (str_nat (year d)) = str_nat (year d)" by (rule zfill_4_str_nat)
  moreover from e assms have "str_int y = str_nat (year d)" by (auto simp: str_int_def)
  ultimately show "strftime_Y d = str_int y" by (simp add: strftime_Y_def)
qed

lemma month_matches:
  assumes "1 \<le> k"
  shows "strftime_m d = format_02d k \<longleftrightarrow> int (month d) = k"
proof
  assume "strftime_m d = format_02d k"
  then have "decimal_value (strftime_m d) = decimal_value (format_02d k)" by simp
  with assms have "month d = nat k"
    by (simp add: strftime_m_def format_02d_def decimal_value_zfill decimal_value_str_nat)
  with assms show "int (month d) = k" by simp
next
  assume e: "int (month d) = k"
  then have "nat k = month d" by simp
  with assms show "strftime_m d = format_02d k" by (simp add: strftime_m_def format_02d_def)
qed

lemma map_of_groups:
  "map_of (map (\<lambda>g. (g, f g)) gs) g = (if g \<in> set gs then Some (f g) else None)"
  by (induction gs) simp_all

text \<open>For a year of four digits and a month from 1 on, the frame that
  \<open>get_synthese_mensuelle\<close> returns is, read as a mapping, the summary of the
  specification.\<close>

lemma synthese_four_digit_years:
  assumes "1000 \<le> y" and "1 \<le> k"
  shows "map_of (get_synthese_mensuelle None now db (Some y) (Some k)) g =
           summarize_by_category_spec db y k g"
proof -
  have f: "filter (\<lambda>t. strftime_Y (date_transaction t) = str_int y
                       \<and> strftime_m (date_transaction t) = format_02d k) (transactions db) =
           filter (\<lambda>t. int (year (date_transaction t)) = y
                            \<and> int (month (date_transaction t)) = k) (transactions db)"
    by (simp only: year_matches [OF assms(1)] month_matches [OF assms(2)])
  from assms have nz: "y \<noteq> 0" "k \<noteq> 0" by simp_all
  have "get_synthese_mensuelle None now db (Some y) (Some k) =
      map (\<lambda>g. (g, sum_list (map montant (filter (\<lambda>t. type_transaction t = g)
              (filter (\<lambda>t. int (year (date_transaction t)) = y
                            \<and> int (month (date_transaction t)) = k) (transactions db))))))
          (remdups (map type_transaction
              (filter (\<lambda>t. int (year (date_transaction t)) = y
                            \<and> int (month (date_transaction t)) = k) (transactions db))))"
    unfolding get_synthese_mensuelle_def execute_def using nz
    by (simp only: f Let_def option.case if_False sum.case)
  then show ?thesis
    unfolding summarize_by_category_spec_def Let_def
    by (simp only: map_of_groups set_remdups)
qed

lemma str_nat_values:
  "str_nat 999 = ''999''" "str_nat 2024 = ''2024''" "str_nat (Suc 0) = ''1''" "str_nat 2 = ''2''"
  by code_simp+

text \<open>Scenario C of the specification: two transactions in January 2024 and one in
  February; the summary of January has the two January categories with their amounts.\<close>

lemma synthese_scenario_c:
  "get_synthese_mensuelle None \<lparr>year = 2026, month = 11, day = 3\<rparr>
       (run [Record None \<lparr>year = 2024, month = 1, day = 5\<rparr> ''SYS_BDC'' ''RECETTES''
               500 ''a'' ''BDC'' None None,
             Record None \<lparr>year = 2024, month = 1, day = 20\<rparr> ''CHARGE_FIX'' ''RECETTES''
               300 ''b'' ''Charge Fixe'' None None,
             Record None \<lparr>year = 2024, month = 2, day = 1\<rparr> ''DEP_OP'' ''RECETTES''
               70 ''c'' ''Autre'' None None]) (Some 2024) (Some 1)
     = [(''BDC'', 500), (''Charge Fixe'', 300)]"
  by (simp add: run_def ajouter_success update_solde_fields insert_transaction_fields
      new_row_fields get_synthese_mensuelle_def execute_def strftime_Y_def strftime_m_def
      str_int_def format_02d_def zfill_def str_nat_values init_database_def empty_database_def)

text \<open>
  Claim C8: for every store and every (year, month) the summary has exactly the
  categories with a transaction in that month, each with the sum of its amounts. The
  query compares \<open>strftime('%Y', date_transaction)\<close>, which has four digits, with
  \<open>str(annee)\<close>, which is not zero-filled (the month is, by \<open>{mois:02d}\<close>). With one BDC
  transaction of 500 dated 0999-01-15 in the store, the summary of January 999 should
  map BDC to 500; the frame that the program returns is empty.
\<close>

theorem synthese_year_999_empty:
  "summarize_by_category_spec
       (run [Record None \<lparr>year = 999, month = 1, day = 15\<rparr> ''SYS_BDC'' ''RECETTES''
               500 ''x'' ''BDC'' None None]) 999 1 ''BDC'' = Some 500
   \<and> get_synthese_mensuelle None \<lparr>year = 2026, month = 11, day = 3\<rparr>
       (run [Record None \<lparr>year = 999, month = 1, day = 15\<rparr> ''SYS_BDC'' ''RECETTES''
               500 ''x'' ''BDC'' None None]) (Some 999) (Some 1) = []"
  by (simp add: run_def ajouter_success update_solde_fields insert_transaction_fields
      new_row_fields get_synthese_mensuelle_def execute_def strftime_Y_def strftime_m_def
      str_int_def format_02d_def zfill_def str_nat_values init_database_def empty_database_def
      summarize_by_category_spec_def)

end
